theory Spec2Isabelle
  imports Main
begin

section \<open>The icon generator: build/generate\_icons.py\<close>

text \<open>
  The script reads one SVG file next to itself, rasterises it to four PNG files, packs
  resized copies of the largest one into an ICO file and keeps a backup copy of the
  largest PNG. Everything it does is a call into the file system or into one of two
  libraries (cairosvg and Pillow), so the model is a state-passing one: a \<open>world\<close>
  holds the file system and a chronological log of the effects carried out, every
  operation maps a world to an \<open>outcome\<close>, and a Python exception is the outcome
  \<open>Raised\<close>, carrying the world as it was when the exception was raised.
\<close>

subsection \<open>Images and files\<close>

text \<open>
  The pixels of an image are never inspected by the script. An image is therefore the
  term that says how the libraries were asked to make it: rasterised from an SVG document
  at a requested width and height, or resized from another image with a resampling
  filter. A raster that the program did not make itself is known by a name, its pixel
  mode and its size.
\<close>

datatype resampling = NEAREST | BILINEAR | BICUBIC | LANCZOS

text \<open>
  The pixel mode of an image as far as resizing depends on it: Pillow's modes \<open>1\<close>
  and \<open>P\<close>, and all the others.
\<close>

datatype pixel_mode = Bilevel | Palette | Direct

datatype image =
    Rasterized string nat nat
  | External string pixel_mode nat nat
  | Resized image nat nat resampling

fun img_size :: "image \<Rightarrow> nat \<times> nat" where
  "img_size (Rasterized doc w h) = (w, h)"
| "img_size (External name m w h) = (w, h)"
| "img_size (Resized im w h f) = (w, h)"

text \<open>cairosvg writes its rasters with direct colour; resizing keeps the mode.\<close>

fun img_mode :: "image \<Rightarrow> pixel_mode" where
  "img_mode (Rasterized doc w h) = Direct"
| "img_mode (External name m w h) = m"
| "img_mode (Resized im w h f) = img_mode im"

definition img_width :: "image \<Rightarrow> nat" where
  "img_width im = fst (img_size im)"

definition img_height :: "image \<Rightarrow> nat" where
  "img_height im = snd (img_size im)"

text \<open>
  What a regular file holds: a parseable SVG document, a PNG image, an ICO container
  (its frames in file order), or bytes that are none of these.
\<close>

datatype file_data =
    SvgData string
  | PngData image
  | IcoData "image list"
  | OtherData string

text \<open>A directory entry: a regular file with its modification time, or a directory.\<close>

datatype node = File file_data nat | Dir

text \<open>The lines the script prints, one constructor per \<open>print\<close> call of the source.\<close>

datatype msg =
    MsgMissingDeps              \<comment> \<open>line 18\<close>
  | MsgPipInstall               \<comment> \<open>line 19\<close>
  | MsgBlank                    \<comment> \<open>line 20\<close>
  | MsgGenerated string nat     \<comment> \<open>line 30: path and size\<close>
  | MsgIcoGenerated string nat  \<comment> \<open>line 52: path and number of sizes\<close>
  | MsgSvgNotFound string       \<comment> \<open>line 63: the path that was looked for\<close>
  | MsgStart                    \<comment> \<open>line 66\<close>
  | MsgIcoStart                 \<comment> \<open>line 83\<close>
  | MsgBackedUp string          \<comment> \<open>line 91\<close>
  | MsgDone                     \<comment> \<open>line 93\<close>
  | MsgFilesHeader              \<comment> \<open>line 94\<close>
  | MsgListed string            \<comment> \<open>lines 95 to 99\<close>
  | MsgRebuild                  \<comment> \<open>line 100\<close>

text \<open>The effects a run carries out, in the order in which they happen.\<close>

datatype event =
    Printed msg
  | Wrote string            \<comment> \<open>a file was created or overwritten at this path\<close>
  | EnsuredDir string       \<comment> \<open>\<open>mkdir(exist_ok=True)\<close> returned for this path\<close>
  | Copied string string    \<comment> \<open>\<open>shutil.copy2\<close> from the first path to the second\<close>

datatype error =
    FileNotFoundError
  | IsADirectoryError
  | PermissionError
  | FileExistsError
  | ParseError                 \<comment> \<open>the source is not parseable as SVG\<close>
  | UnidentifiedImageError     \<comment> \<open>the file is not a raster image\<close>
  | IndexError
  | OSError                    \<comment> \<open>a module is installed but cannot be loaded\<close>

record world =
  entries :: "string \<Rightarrow> node option"
  writable :: "string \<Rightarrow> bool"
  clock :: nat
  log :: "event list"

datatype outcome = Returned world | Raised error world

text \<open>Sequencing: the second operation runs only if the first returned.\<close>

definition andthen :: "(world \<Rightarrow> outcome) \<Rightarrow> (world \<Rightarrow> outcome) \<Rightarrow> world \<Rightarrow> outcome" where
  "andthen f g w = (case f w of Returned w' \<Rightarrow> g w' | Raised e w' \<Rightarrow> Raised e w')"

subsection \<open>File system and library operations\<close>

definition print :: "msg \<Rightarrow> world \<Rightarrow> outcome" where
  "print m w = Returned (w\<lparr>log := log w @ [Printed m]\<rparr>)"

definition exists :: "world \<Rightarrow> string \<Rightarrow> bool" where
  "exists w p = (entries w p \<noteq> None)"

text \<open>
  Creating or overwriting a regular file. It fails on a directory and on a path the
  process may not write; a failed write leaves the world as it was. The new file is
  stamped with the current time.
\<close>

definition write_file :: "string \<Rightarrow> file_data \<Rightarrow> world \<Rightarrow> outcome" where
  "write_file p d w =
     (if entries w p = Some Dir then Raised IsADirectoryError w
      else if \<not> writable w p then Raised PermissionError w
      else Returned (w\<lparr>entries := (entries w)(p \<mapsto> File d (clock w)),
                       clock := Suc (clock w),
                       log := log w @ [Wrote p]\<rparr>))"

text \<open>
  \<open>cairosvg.svg2png(url, write_to, output_width, output_height)\<close>: parses the file at
  \<open>url\<close> and writes a PNG of the requested width and height.
\<close>

definition svg2png :: "string \<Rightarrow> string \<Rightarrow> nat \<Rightarrow> nat \<Rightarrow> world \<Rightarrow> outcome" where
  "svg2png url write_to output_width output_height w =
     (case entries w url of
        None \<Rightarrow> Raised FileNotFoundError w
      | Some Dir \<Rightarrow> Raised IsADirectoryError w
      | Some (File (SvgData doc) t) \<Rightarrow>
          write_file write_to (PngData (Rasterized doc output_width output_height)) w
      | Some (File other t) \<Rightarrow> Raised ParseError w)"

text \<open>
  \<open>Image.open\<close>: a PNG file gives its image, an ICO file its largest frame (the first
  of them in file order), anything else is not an image.
\<close>

definition area :: "image \<Rightarrow> nat" where
  "area im = img_width im * img_height im"

fun largest :: "image \<Rightarrow> image list \<Rightarrow> image" where
  "largest best [] = best"
| "largest best (f # fs) = largest (if area best < area f then f else best) fs"

definition image_open :: "world \<Rightarrow> string \<Rightarrow> error + image" where
  "image_open w p =
     (case entries w p of
        None \<Rightarrow> Inl FileNotFoundError
      | Some Dir \<Rightarrow> Inl IsADirectoryError
      | Some (File (PngData im) t) \<Rightarrow> Inr im
      | Some (File (IcoData []) t) \<Rightarrow> Inl UnidentifiedImageError
      | Some (File (IcoData (f # fs)) t) \<Rightarrow> Inr (largest f fs)
      | Some (File other t) \<Rightarrow> Inl UnidentifiedImageError)"

text \<open>
  \<open>Image.resize(size, resample)\<close>: a new image of exactly the requested size. For a
  bilevel or palette image Pillow resamples with \<open>NEAREST\<close>, whatever filter is asked
  for.
\<close>

definition used_filter :: "image \<Rightarrow> resampling \<Rightarrow> resampling" where
  "used_filter im f = (if img_mode im = Bilevel \<or> img_mode im = Palette then NEAREST else f)"

definition resize :: "image \<Rightarrow> nat \<times> nat \<Rightarrow> resampling \<Rightarrow> image" where
  "resize im sz f = Resized im (fst sz) (snd sz) (used_filter im f)"

text \<open>
  The ICO encoder of Pillow decides which frames a container holds and in which order,
  from the image being saved, the \<open>sizes\<close> option and the \<open>append_images\<close>
  option. It is not part of this repository, so it is a parameter of the model.
\<close>

type_synonym ico_encoder = "image \<Rightarrow> (nat \<times> nat) list \<Rightarrow> image list \<Rightarrow> image list"

text \<open>\<open>im.save(path, format='ICO', sizes=..., append_images=...)\<close>.\<close>

definition save_ico ::
  "ico_encoder \<Rightarrow> image \<Rightarrow> string \<Rightarrow> (nat \<times> nat) list \<Rightarrow> image list \<Rightarrow> world \<Rightarrow> outcome" where
  "save_ico enc im path sizes append_images w =
     write_file path (IcoData (enc im sizes append_images)) w"

text \<open>
  \<open>Path.mkdir(exist_ok=True)\<close>: creates the directory; an existing directory is
  accepted, an existing regular file is not.
\<close>

definition mkdir_exist_ok :: "string \<Rightarrow> world \<Rightarrow> outcome" where
  "mkdir_exist_ok p w =
     (case entries w p of
        Some Dir \<Rightarrow> Returned (w\<lparr>log := log w @ [EnsuredDir p]\<rparr>)
      | Some (File d t) \<Rightarrow> Raised FileExistsError w
      | None \<Rightarrow>
          (if \<not> writable w p then Raised PermissionError w
           else Returned (w\<lparr>entries := (entries w)(p \<mapsto> Dir),
                            log := log w @ [EnsuredDir p]\<rparr>)))"

text \<open>
  \<open>shutil.copy2(src, dst)\<close>: copies the contents and the metadata, so the copy keeps
  the modification time of the original.
\<close>

definition copy2 :: "string \<Rightarrow> string \<Rightarrow> world \<Rightarrow> outcome" where
  "copy2 src dst w =
     (case entries w src of
        None \<Rightarrow> Raised FileNotFoundError w
      | Some Dir \<Rightarrow> Raised IsADirectoryError w
      | Some (File d t) \<Rightarrow>
          (if entries w dst = Some Dir then Raised IsADirectoryError w
           else if \<not> writable w dst then Raised PermissionError w
           else Returned (w\<lparr>entries := (entries w)(dst \<mapsto> File d t),
                            log := log w @ [Copied src dst]\<rparr>)))"

text \<open>\<open>script_dir / name\<close>.\<close>

definition join :: "string \<Rightarrow> string \<Rightarrow> string" where
  "join dir name = dir @ ''/'' @ name"

text \<open>\<open>str(size)\<close> inside an f-string: the decimal digits of a natural number.\<close>

definition digit :: "nat \<Rightarrow> char" where
  "digit n = char_of (48 + n)"

function show_nat :: "nat \<Rightarrow> string" where
  "show_nat n = (if n < 10 then [digit n] else show_nat (n div 10) @ [digit (n mod 10)])"
  by pat_completeness auto
termination
  by (relation "measure id") auto

declare show_nat.simps [simp del]

subsection \<open>The script\<close>

text \<open>
  What the two import statements of lines 13 and 14 do: both modules load; a module is not
  found, which is an \<open>ImportError\<close>; or loading fails with another exception, as
  when a module is installed but a native library that it needs is missing.
\<close>

datatype import_outcome = Imported | ModuleMissing | LoadFailed error

text \<open>
  Lines 12 to 20: the guarded import. Only \<open>ImportError\<close> is caught; any other
  exception ends the program there.
\<close>

definition import_libraries :: "import_outcome \<Rightarrow> world \<Rightarrow> outcome" where
  "import_libraries imp w =
     (case imp of
        Imported \<Rightarrow> Returned w
      | ModuleMissing \<Rightarrow>
          andthen (print MsgMissingDeps) (andthen (print MsgPipInstall) (print MsgBlank)) w
      | LoadFailed e \<Rightarrow> Raised e w)"

text \<open>The flag \<open>HAS_DEPS\<close> that lines 15 and 17 set.\<close>

definition has_deps_of :: "import_outcome \<Rightarrow> bool" where
  "has_deps_of imp = (imp = Imported)"

text \<open>Lines 22 to 30.\<close>

definition svg_to_png :: "string \<Rightarrow> string \<Rightarrow> nat \<Rightarrow> world \<Rightarrow> outcome" where
  "svg_to_png svg_path png_path sz =
     andthen (svg2png svg_path png_path sz sz)
             (print (MsgGenerated png_path sz))"

text \<open>Lines 37 and 40 to 43: the size table and the loop that fills \<open>icons\<close>.\<close>

definition ico_sizes :: "(nat \<times> nat) list" where
  "ico_sizes = [(256, 256), (128, 128), (64, 64), (48, 48), (32, 32), (16, 16)]"

fun resize_each :: "image \<Rightarrow> (nat \<times> nat) list \<Rightarrow> image list" where
  "resize_each img [] = []"
| "resize_each img (sz # rest) = resize img sz LANCZOS # resize_each img rest"

text \<open>Lines 32 to 52.\<close>

definition create_ico :: "ico_encoder \<Rightarrow> string \<Rightarrow> string \<Rightarrow> world \<Rightarrow> outcome" where
  "create_ico enc png_path ico_path w =
     (case image_open w png_path of
        Inl e \<Rightarrow> Raised e w
      | Inr img \<Rightarrow>
          (case resize_each img ico_sizes of
             [] \<Rightarrow> Raised IndexError w
           | first # others \<Rightarrow>
               andthen (save_ico enc first ico_path ico_sizes others)
                       (print (MsgIcoGenerated ico_path (length ico_sizes))) w))"

text \<open>Lines 73 to 76: the loop over the smaller sizes.\<close>

fun png_loop :: "string \<Rightarrow> string \<Rightarrow> nat list \<Rightarrow> world \<Rightarrow> outcome" where
  "png_loop script_dir svg_file [] w = Returned w"
| "png_loop script_dir svg_file (sz # rest) w =
     andthen (svg_to_png svg_file (join script_dir (''icon_'' @ show_nat sz @ ''.png'')) sz)
             (png_loop script_dir svg_file rest) w"

text \<open>Lines 86 to 91: the guarded backup.\<close>

definition backup_step :: "string \<Rightarrow> string \<Rightarrow> world \<Rightarrow> outcome" where
  "backup_step png_512 original_png w =
     (if exists w png_512 \<and> \<not> exists w original_png
      then andthen (copy2 png_512 original_png) (print (MsgBackedUp original_png)) w
      else Returned w)"

text \<open>Lines 93 to 100: the summary.\<close>

definition summary :: "string \<Rightarrow> string \<Rightarrow> string \<Rightarrow> world \<Rightarrow> outcome" where
  "summary script_dir png_512 ico_file =
     andthen (print MsgDone)
    (andthen (print MsgFilesHeader)
    (andthen (print (MsgListed png_512))
    (andthen (print (MsgListed (join script_dir ''icon_256.png'')))
    (andthen (print (MsgListed (join script_dir ''icon_128.png'')))
    (andthen (print (MsgListed (join script_dir ''icon_64.png'')))
    (andthen (print (MsgListed ico_file))
             (print MsgRebuild)))))))"

text \<open>
  Lines 54 to 100. \<open>has_deps\<close> is the flag set by the import, \<open>script_dir\<close> the
  directory of the script.
\<close>

definition main :: "bool \<Rightarrow> ico_encoder \<Rightarrow> string \<Rightarrow> world \<Rightarrow> outcome" where
  "main has_deps enc script_dir w =
     (if \<not> has_deps then Returned w
      else
        let svg_file = join script_dir ''appicon.svg'' in
        if \<not> exists w svg_file then print (MsgSvgNotFound svg_file) w
        else
          let png_512 = join script_dir ''appicon.png'';
              ico_dir = join script_dir ''windows'';
              ico_file = join ico_dir ''icon.ico'';
              original_png = join script_dir ''appicon.png.backup''
          in
            andthen (print MsgStart)
           (andthen (svg_to_png svg_file png_512 512)
           (andthen (png_loop script_dir svg_file [256, 128, 64])
           (andthen (mkdir_exist_ok ico_dir)
           (andthen (print MsgIcoStart)
           (andthen (create_ico enc png_512 ico_file)
           (andthen (backup_step png_512 original_png)
                    (summary script_dir png_512 ico_file))))))) w)"

text \<open>Running the file as a program: the import, then lines 102 and 103.\<close>

definition script :: "import_outcome \<Rightarrow> ico_encoder \<Rightarrow> string \<Rightarrow> world \<Rightarrow> outcome" where
  "script imp enc script_dir =
     andthen (import_libraries imp) (main (has_deps_of imp) enc script_dir)"

subsection \<open>Vocabulary of the properties\<close>

text \<open>The world in which an outcome ends, whether by return or by exception.\<close>

fun after :: "outcome \<Rightarrow> world" where
  "after (Returned w) = w"
| "after (Raised e w) = w"

text \<open>The effects carried out between an earlier world and a later one.\<close>

definition events_of :: "world \<Rightarrow> world \<Rightarrow> event list" where
  "events_of w w' = drop (length (log w)) (log w')"

text \<open>A path at which a regular file can be created or overwritten.\<close>

definition can_write :: "world \<Rightarrow> string \<Rightarrow> bool" where
  "can_write w p = (entries w p \<noteq> Some Dir \<and> writable w p)"

text \<open>A path at which \<open>mkdir(exist_ok=True)\<close> succeeds.\<close>

definition dir_ok :: "world \<Rightarrow> string \<Rightarrow> bool" where
  "dir_ok w p = (entries w p = Some Dir \<or> (entries w p = None \<and> writable w p))"

fun is_svg :: "node option \<Rightarrow> bool" where
  "is_svg (Some (File (SvgData doc) t)) = True"
| "is_svg other = False"

text \<open>
  The worlds in which no library or file system call of \<open>main\<close> fails: the source
  parses, the five output paths can be written, the output directory can be made, and the
  backup path, when it is free, can be written.
\<close>

definition ready :: "string \<Rightarrow> world \<Rightarrow> bool" where
  "ready script_dir w =
     (is_svg (entries w (join script_dir ''appicon.svg'')) \<and>
      can_write w (join script_dir ''appicon.png'') \<and>
      can_write w (join script_dir ''icon_256.png'') \<and>
      can_write w (join script_dir ''icon_128.png'') \<and>
      can_write w (join script_dir ''icon_64.png'') \<and>
      dir_ok w (join script_dir ''windows'') \<and>
      can_write w (join (join script_dir ''windows'') ''icon.ico'') \<and>
      (exists w (join script_dir ''appicon.png.backup'') \<or>
       writable w (join script_dir ''appicon.png.backup'')))"

text \<open>The effects of steps 1 to 3 of \<open>main\<close>, of the backup step and of the summary.\<close>

definition produce_events :: "string \<Rightarrow> event list" where
  "produce_events script_dir =
     [Printed MsgStart,
      Wrote (join script_dir ''appicon.png''),
      Printed (MsgGenerated (join script_dir ''appicon.png'') 512),
      Wrote (join script_dir ''icon_256.png''),
      Printed (MsgGenerated (join script_dir ''icon_256.png'') 256),
      Wrote (join script_dir ''icon_128.png''),
      Printed (MsgGenerated (join script_dir ''icon_128.png'') 128),
      Wrote (join script_dir ''icon_64.png''),
      Printed (MsgGenerated (join script_dir ''icon_64.png'') 64),
      EnsuredDir (join script_dir ''windows''),
      Printed MsgIcoStart,
      Wrote (join (join script_dir ''windows'') ''icon.ico''),
      Printed (MsgIcoGenerated (join (join script_dir ''windows'') ''icon.ico'') 6)]"

definition backup_events :: "string \<Rightarrow> bool \<Rightarrow> event list" where
  "backup_events script_dir had_backup =
     (if had_backup then []
      else [Copied (join script_dir ''appicon.png'') (join script_dir ''appicon.png.backup''),
            Printed (MsgBackedUp (join script_dir ''appicon.png.backup''))])"

definition summary_events :: "string \<Rightarrow> event list" where
  "summary_events script_dir =
     [Printed MsgDone,
      Printed MsgFilesHeader,
      Printed (MsgListed (join script_dir ''appicon.png'')),
      Printed (MsgListed (join script_dir ''icon_256.png'')),
      Printed (MsgListed (join script_dir ''icon_128.png'')),
      Printed (MsgListed (join script_dir ''icon_64.png'')),
      Printed (MsgListed (join (join script_dir ''windows'') ''icon.ico'')),
      Printed MsgRebuild]"

definition main_events :: "string \<Rightarrow> bool \<Rightarrow> event list" where
  "main_events script_dir had_backup =
     produce_events script_dir @ backup_events script_dir had_backup @ summary_events script_dir"

text \<open>
  The effects of a whole run of the script in which no call fails, given what the import
  did and whether the source and the backup were there.
\<close>

definition script_events :: "import_outcome \<Rightarrow> string \<Rightarrow> bool \<Rightarrow> bool \<Rightarrow> event list" where
  "script_events imp script_dir has_source had_backup =
     (case imp of
        Imported \<Rightarrow>
          (if has_source then main_events script_dir had_backup
           else [Printed (MsgSvgNotFound (join script_dir ''appicon.svg''))])
      | ModuleMissing \<Rightarrow> [Printed MsgMissingDeps, Printed MsgPipInstall, Printed MsgBlank]
      | LoadFailed e \<Rightarrow> [])"

text \<open>Lines 66 to 84 of \<open>main\<close> as one operation: everything before the backup step.\<close>

definition produce :: "ico_encoder \<Rightarrow> string \<Rightarrow> world \<Rightarrow> outcome" where
  "produce enc script_dir =
     andthen (print MsgStart)
    (andthen (svg_to_png (join script_dir ''appicon.svg'') (join script_dir ''appicon.png'') 512)
    (andthen (png_loop script_dir (join script_dir ''appicon.svg'') [256, 128, 64])
    (andthen (mkdir_exist_ok (join script_dir ''windows''))
    (andthen (print MsgIcoStart)
             (create_ico enc (join script_dir ''appicon.png'')
                (join (join script_dir ''windows'') ''icon.ico''))))))"

text \<open>
  An operation emits a fixed list of events: all of them when it returns, an initial
  part of them when it raises.
\<close>

definition emits :: "(world \<Rightarrow> outcome) \<Rightarrow> event list \<Rightarrow> bool" where
  "emits f evs =
     (\<forall>w. case f w of
            Returned w' \<Rightarrow> log w' = log w @ evs
          | Raised e w' \<Rightarrow> (\<exists>n. log w' = log w @ take n evs))"

text \<open>An operation leaves the entry at a path alone, however it ends.\<close>

definition keeps :: "string \<Rightarrow> (world \<Rightarrow> outcome) \<Rightarrow> bool" where
  "keeps p f = (\<forall>w. entries (after (f w)) p = entries w p)"

text \<open>
  The backup step once it is known whether a backup existed: nothing, or the copy and its
  message.
\<close>

definition backup_branch :: "string \<Rightarrow> bool \<Rightarrow> world \<Rightarrow> outcome" where
  "backup_branch script_dir had_backup =
     (if had_backup then Returned
      else andthen (copy2 (join script_dir ''appicon.png'') (join script_dir ''appicon.png.backup''))
                   (print (MsgBackedUp (join script_dir ''appicon.png.backup''))))"

text \<open>What the files of a world hold, for stating what a run produced.\<close>

definition png_size :: "world \<Rightarrow> string \<Rightarrow> (nat \<times> nat) option" where
  "png_size w p =
     (case entries w p of Some (File (PngData im) t) \<Rightarrow> Some (img_size im) | _ \<Rightarrow> None)"

definition png_image :: "world \<Rightarrow> string \<Rightarrow> image option" where
  "png_image w p =
     (case entries w p of Some (File (PngData im) t) \<Rightarrow> Some im | _ \<Rightarrow> None)"


fun is_print :: "event \<Rightarrow> bool" where
  "is_print (Printed m) = True"
| "is_print other = False"

subsection \<open>The ICO writer of Pillow\<close>

text \<open>
  The encoder that Pillow ships (\<open>IcoImagePlugin._save\<close>) walks through
  \<open>sorted(set(sizes))\<close>, skips a size that exceeds the image being saved or 256, and
  for each remaining size embeds the first supplied image of exactly that size, or else a
  Lanczos thumbnail of the image being saved. (For an image that is not square the
  thumbnail keeps the aspect ratio; the script only ever saves a square one.)
  Pillow is not part of this repository: what follows is a model of its writer, one value
  of the encoder parameter, used to show that the order of the frames inside the file is
  not fixed by \<open>create_ico\<close>.
\<close>

fun insert_size :: "nat \<times> nat \<Rightarrow> (nat \<times> nat) list \<Rightarrow> (nat \<times> nat) list" where
  "insert_size s [] = [s]"
| "insert_size s (x # xs) =
     (if s = x then x # xs
      else if fst s < fst x \<or> (fst s = fst x \<and> snd s < snd x) then s # x # xs
      else x # insert_size s xs)"

definition sorted_set :: "(nat \<times> nat) list \<Rightarrow> (nat \<times> nat) list" where
  "sorted_set sizes = foldr insert_size sizes []"

fun pillow_frames :: "image \<Rightarrow> image list \<Rightarrow> (nat \<times> nat) list \<Rightarrow> image list" where
  "pillow_frames im provided_ims [] = []"
| "pillow_frames im provided_ims (sz # rest) =
     (if img_width im < fst sz \<or> img_height im < snd sz \<or> 256 < fst sz \<or> 256 < snd sz
      then pillow_frames im provided_ims rest
      else (case find (\<lambda>p. img_size p = sz) provided_ims of
              Some p \<Rightarrow> p
            | None \<Rightarrow> Resized im (fst sz) (snd sz) LANCZOS)
           # pillow_frames im provided_ims rest)"

definition pillow_encoder :: ico_encoder where
  "pillow_encoder im sizes append_images =
     pillow_frames im (im # append_images) (sorted_set sizes)"

subsection \<open>Example worlds\<close>

definition build_dir :: string where
  "build_dir = ''/app/build''"

text \<open>A first run: only the source is there, everything can be written.\<close>

definition fresh_world :: world where
  "fresh_world =
     \<lparr>entries = [''/app/build/appicon.svg'' \<mapsto> File (SvgData ''<svg/>'') 7],
      writable = (\<lambda>p. True), clock = 100, log = []\<rparr>"

text \<open>The source is present but is not an SVG document.\<close>

definition corrupt_world :: world where
  "corrupt_world =
     \<lparr>entries = [''/app/build/appicon.svg'' \<mapsto> File (OtherData ''garbage'') 7],
      writable = (\<lambda>p. True), clock = 100, log = []\<rparr>"

text \<open>
  The source is gone; the PNG and the output directory of an earlier run are still there,
  without a backup.
\<close>

definition stale_world :: world where
  "stale_world =
     \<lparr>entries = [''/app/build/appicon.png'' \<mapsto>
                   File (PngData (Rasterized ''<svg/>'' 512 512)) 50,
                 ''/app/build/windows'' \<mapsto> Dir],
      writable = (\<lambda>p. True), clock = 100, log = []\<rparr>"

text \<open>
  Another first run: a different source document, an earlier clock, the output directory
  already there.
\<close>

definition second_world :: world where
  "second_world =
     \<lparr>entries = [''/app/build/appicon.svg'' \<mapsto> File (SvgData ''<svg><rect/></svg>'') 2,
                 ''/app/build/windows'' \<mapsto> Dir],
      writable = (\<lambda>p. True), clock = 40, log = []\<rparr>"


text \<open>The output directory and a backup are already there; the backup cannot be written.\<close>

definition rerun_world :: world where
  "rerun_world =
     \<lparr>entries = [''/app/build/appicon.svg'' \<mapsto> File (SvgData ''<svg/>'') 7,
                 ''/app/build/windows'' \<mapsto> Dir,
                 ''/app/build/appicon.png.backup'' \<mapsto>
                   File (PngData (Rasterized ''<old/>'' 512 512)) 3],
      writable = (\<lambda>p. p \<noteq> ''/app/build/appicon.png.backup''), clock = 100, log = []\<rparr>"

section \<open>Properties\<close>

subsection \<open>Sequencing, traces and frames\<close>

lemma show_nat_256: "show_nat 256 = ''256''" by code_simp
lemma show_nat_128: "show_nat 128 = ''128''" by code_simp
lemma show_nat_64: "show_nat 64 = ''64''" by code_simp

lemmas run_defs = main_def Let_def exists_def andthen_def print_def svg_to_png_def svg2png_def
      write_file_def can_write_def join_def show_nat_256 show_nat_128 show_nat_64 mkdir_exist_ok_def
      create_ico_def image_open_def ico_sizes_def resize_def save_ico_def backup_step_def copy2_def summary_def
      ready_def dir_ok_def

lemma andthen_assoc: "andthen (andthen f g) h = andthen f (andthen g h)"
  by (rule ext) (simp add: andthen_def split: outcome.splits)

lemma andthen_Returned_iff:
  "andthen f g w = Returned w' \<longleftrightarrow> (\<exists>w1. f w = Returned w1 \<and> g w1 = Returned w')"
  by (simp add: andthen_def split: outcome.splits)

lemma emits_andthen:
  assumes f: "emits f evs" and g: "emits g evs'"
  shows "emits (andthen f g) (evs @ evs')"
  unfolding emits_def
proof
  fix w
  show "case andthen f g w of
          Returned w' \<Rightarrow> log w' = log w @ evs @ evs'
        | Raised e w' \<Rightarrow> \<exists>n. log w' = log w @ take n (evs @ evs')"
  proof (cases "f w")
    case (Returned w1)
    with f have l1: "log w1 = log w @ evs"
      by (auto simp: emits_def split: outcome.splits dest: spec[of _ w])
    show ?thesis
    proof (cases "g w1")
      case (Returned w2)
      with g have "log w2 = log w1 @ evs'"
        by (auto simp: emits_def split: outcome.splits dest: spec[of _ w1])
      with l1 Returned \<open>f w = Returned w1\<close> show ?thesis
        by (simp add: andthen_def)
    next
      case (Raised e w2)
      from g have "case g w1 of Returned w' \<Rightarrow> log w' = log w1 @ evs'
                   | Raised e w' \<Rightarrow> (\<exists>n. log w' = log w1 @ take n evs')"
        by (simp add: emits_def)
      with Raised obtain n where "log w2 = log w1 @ take n evs'"
        by auto
      with l1 have "log w2 = log w @ take (length evs + n) (evs @ evs')"
        by simp
      then have "\<exists>m. log w2 = log w @ take m (evs @ evs')" ..
      with Raised \<open>f w = Returned w1\<close> show ?thesis
        by (simp add: andthen_def)
    qed
  next
    case (Raised e w1)
    from f have "case f w of Returned w' \<Rightarrow> log w' = log w @ evs
                 | Raised e w' \<Rightarrow> (\<exists>n. log w' = log w @ take n evs)"
      by (simp add: emits_def)
    with Raised obtain n where "log w1 = log w @ take n evs"
      by auto
    then have "log w1 = log w @ take (min n (length evs)) (evs @ evs')"
      by (simp add: min_def)
    then have "\<exists>m. log w1 = log w @ take m (evs @ evs')" ..
    with Raised show ?thesis
      by (simp add: andthen_def)
  qed
qed

lemma emits_print: "emits (print m) [Printed m]"
  by (simp add: emits_def print_def)

lemma emits_write_file: "emits (write_file p d) [Wrote p]"
  by (auto simp: emits_def write_file_def intro: exI[of _ 0])

lemma emits_svg2png: "emits (svg2png url p ow oh) [Wrote p]"
  using emits_write_file
  by (auto simp: emits_def svg2png_def split: option.splits node.splits file_data.splits intro: exI[of _ 0])

lemma emits_svg_to_png: "emits (svg_to_png svg p s) [Wrote p, Printed (MsgGenerated p s)]"
  using emits_andthen [OF emits_svg2png emits_print] by (simp add: svg_to_png_def)

lemma emits_Returned: "emits Returned []"
  by (simp add: emits_def)

lemma png_loop_unfold:
  "png_loop d svg [256, 128, 64] =
     andthen (svg_to_png svg (join d ''icon_256.png'') 256)
    (andthen (svg_to_png svg (join d ''icon_128.png'') 128)
             (svg_to_png svg (join d ''icon_64.png'') 64))"
  by (rule ext) (simp add: show_nat_256 show_nat_128 show_nat_64 andthen_def split: outcome.splits)

lemma emits_mkdir: "emits (mkdir_exist_ok p) [EnsuredDir p]"
  by (auto simp: emits_def mkdir_exist_ok_def split: option.splits node.splits intro: exI[of _ 0])

lemma emits_copy2: "emits (copy2 s t) [Copied s t]"
  by (auto simp: emits_def copy2_def split: option.splits node.splits intro: exI[of _ 0])

lemma create_ico_unfold:
  "create_ico enc p q w =
     (case image_open w p of
        Inl e \<Rightarrow> Raised e w
      | Inr img \<Rightarrow>
          andthen (save_ico enc (Resized img 256 256 (used_filter img LANCZOS)) q ico_sizes
                     [Resized img 128 128 (used_filter img LANCZOS),
                      Resized img 64 64 (used_filter img LANCZOS),
                      Resized img 48 48 (used_filter img LANCZOS),
                      Resized img 32 32 (used_filter img LANCZOS),
                      Resized img 16 16 (used_filter img LANCZOS)])
                  (print (MsgIcoGenerated q 6)) w)"
proof -
  have len: "length ico_sizes = 6"
    by (simp add: ico_sizes_def)
  show ?thesis
    unfolding create_ico_def len
    by (simp add: ico_sizes_def resize_def split: sum.splits)
qed

lemma emits_create_ico: "emits (create_ico enc p q) [Wrote q, Printed (MsgIcoGenerated q 6)]"
proof -
  have s: "emits (andthen (save_ico enc a q ss bs) (print (MsgIcoGenerated q 6)))
             [Wrote q, Printed (MsgIcoGenerated q 6)]" for a ss bs
    using emits_andthen [OF emits_write_file emits_print, of q "IcoData (enc a ss bs)" "MsgIcoGenerated q 6"]
    by (simp add: save_ico_def [abs_def])
  show ?thesis
    unfolding emits_def
  proof
    fix w
    show "case create_ico enc p q w of
            Returned w' \<Rightarrow> log w' = log w @ [Wrote q, Printed (MsgIcoGenerated q 6)]
          | Raised e w' \<Rightarrow> \<exists>n. log w' = log w @ take n [Wrote q, Printed (MsgIcoGenerated q 6)]"
    proof (cases "image_open w p")
      case (Inl e)
      then show ?thesis by (auto simp: create_ico_unfold intro: exI[of _ 0])
    next
      case (Inr img)
      then show ?thesis using s [unfolded emits_def] by (simp add: create_ico_unfold)
    qed
  qed
qed

lemma emits_produce: "emits (produce enc d) (produce_events d)"
proof -
  have "emits (produce enc d)
     ([Printed MsgStart] @
      [Wrote (join d ''appicon.png''), Printed (MsgGenerated (join d ''appicon.png'') 512)] @
      ([Wrote (join d ''icon_256.png''), Printed (MsgGenerated (join d ''icon_256.png'') 256)] @
       [Wrote (join d ''icon_128.png''), Printed (MsgGenerated (join d ''icon_128.png'') 128)] @
       [Wrote (join d ''icon_64.png''), Printed (MsgGenerated (join d ''icon_64.png'') 64)]) @
      [EnsuredDir (join d ''windows'')] @
      [Printed MsgIcoStart] @
      [Wrote (join (join d ''windows'') ''icon.ico''),
       Printed (MsgIcoGenerated (join (join d ''windows'') ''icon.ico'') 6)])"
    unfolding produce_def png_loop_unfold
    by (intro emits_andthen emits_print emits_svg_to_png emits_mkdir emits_create_ico)
  then show ?thesis by (simp add: produce_events_def)
qed

lemma emits_summary:
  "emits (summary d (join d ''appicon.png'') (join (join d ''windows'') ''icon.ico'')) (summary_events d)"
proof -
  have "emits (summary d (join d ''appicon.png'') (join (join d ''windows'') ''icon.ico''))
     ([Printed MsgDone] @ [Printed MsgFilesHeader] @ [Printed (MsgListed (join d ''appicon.png''))] @
      [Printed (MsgListed (join d ''icon_256.png''))] @ [Printed (MsgListed (join d ''icon_128.png''))] @
      [Printed (MsgListed (join d ''icon_64.png''))] @
      [Printed (MsgListed (join (join d ''windows'') ''icon.ico''))] @ [Printed MsgRebuild])"
    unfolding summary_def
    by (intro emits_andthen emits_print)
  then show ?thesis by (simp add: summary_events_def)
qed

lemma keeps_andthen: "keeps p f \<Longrightarrow> keeps p g \<Longrightarrow> keeps p (andthen f g)"
  by (auto simp: keeps_def andthen_def split: outcome.splits)
     (metis after.simps)+

lemma keeps_print: "keeps p (print m)"
  by (simp add: keeps_def print_def)

lemma keeps_Returned: "keeps p Returned"
  by (simp add: keeps_def)

lemma keeps_write_file: "p \<noteq> q \<Longrightarrow> keeps p (write_file q d)"
  by (simp add: keeps_def write_file_def)

lemma keeps_svg_to_png: "p \<noteq> q \<Longrightarrow> keeps p (svg_to_png svg q s)"
  by (simp add: keeps_def svg_to_png_def svg2png_def write_file_def andthen_def print_def
      split: option.splits node.splits file_data.splits)

lemma keeps_mkdir: "p \<noteq> q \<Longrightarrow> keeps p (mkdir_exist_ok q)"
  by (simp add: keeps_def mkdir_exist_ok_def split: option.splits node.splits)

lemma keeps_create_ico: "p \<noteq> q \<Longrightarrow> keeps p (create_ico enc src q)"
  by (simp add: keeps_def create_ico_unfold save_ico_def write_file_def andthen_def print_def
      split: sum.splits)

lemma keeps_produce: "keeps (join d ''appicon.png.backup'') (produce enc d)"
  unfolding produce_def png_loop_unfold
  by (intro keeps_andthen keeps_print keeps_svg_to_png keeps_mkdir keeps_create_ico)
     (simp_all add: join_def)

lemma keeps_summary: "keeps p (summary d a b)"
  unfolding summary_def by (intro keeps_andthen keeps_print)

lemma image_open_exists: "image_open w p = Inr img \<Longrightarrow> entries w p \<noteq> None"
  by (cases "entries w p") (simp_all add: image_open_def)

lemma create_ico_exists:
  assumes "create_ico enc p q w = Returned w'"
  shows "exists w' p"
proof (cases "image_open w p")
  case (Inl e)
  with assms show ?thesis by (simp add: create_ico_unfold)
next
  case (Inr img)
  then have "entries w p \<noteq> None"
    by (rule image_open_exists)
  with assms Inr show ?thesis
    by (auto simp: create_ico_unfold andthen_Returned_iff save_ico_def write_file_def print_def
        exists_def split: if_splits)
qed

lemma produce_png:
  assumes "produce enc d w = Returned w1"
  shows "exists w1 (join d ''appicon.png'')"
proof -
  from assms obtain w0 where
    "create_ico enc (join d ''appicon.png'') (join (join d ''windows'') ''icon.ico'') w0 = Returned w1"
    unfolding produce_def andthen_Returned_iff by blast
  then show ?thesis by (rule create_ico_exists)
qed

lemma backup_step_branch:
  assumes "exists w1 (join d ''appicon.png'')"
  shows "backup_step (join d ''appicon.png'') (join d ''appicon.png.backup'') w1 =
         backup_branch d (exists w1 (join d ''appicon.png.backup'')) w1"
  using assms by (simp add: backup_step_def backup_branch_def)

lemma main_chain:
  assumes "exists w (join d ''appicon.svg'')"
  shows "main True enc d w =
         andthen (produce enc d)
           (andthen (backup_branch d (exists w (join d ''appicon.png.backup'')))
                    (summary d (join d ''appicon.png'') (join (join d ''windows'') ''icon.ico''))) w"
proof -
  let ?S = "summary d (join d ''appicon.png'') (join (join d ''windows'') ''icon.ico'')"
  have m: "main True enc d w =
      andthen (produce enc d)
        (andthen (backup_step (join d ''appicon.png'') (join d ''appicon.png.backup'')) ?S) w"
    using assms by (simp add: main_def Let_def produce_def andthen_assoc)
  show ?thesis
  proof (cases "produce enc d w")
    case (Returned w1)
    then have "exists w1 (join d ''appicon.png'')"
      by (rule produce_png)
    then have b: "backup_step (join d ''appicon.png'') (join d ''appicon.png.backup'') w1 =
         backup_branch d (exists w1 (join d ''appicon.png.backup'')) w1"
      by (rule backup_step_branch)
    from keeps_produce [of d enc] Returned
    have "entries w1 (join d ''appicon.png.backup'') = entries w (join d ''appicon.png.backup'')"
      by (auto simp: keeps_def dest: spec[of _ w])
    then have "exists w1 (join d ''appicon.png.backup'') = exists w (join d ''appicon.png.backup'')"
      by (simp add: exists_def)
    with b m Returned show ?thesis
      by (simp add: andthen_def)
  next
    case (Raised e w1)
    with m show ?thesis by (simp add: andthen_def)
  qed
qed

lemma emits_backup_branch: "emits (backup_branch d b) (backup_events d b)"
proof (cases b)
  case True
  then show ?thesis by (simp add: backup_branch_def backup_events_def emits_Returned)
next
  case False
  then show ?thesis
    using emits_andthen [OF emits_copy2 emits_print,
        of "join d ''appicon.png''" "join d ''appicon.png.backup''" "MsgBackedUp (join d ''appicon.png.backup'')"]
    by (simp add: backup_branch_def backup_events_def)
qed

lemma emits_chain:
  "emits (andthen (produce enc d)
           (andthen (backup_branch d b)
                    (summary d (join d ''appicon.png'') (join (join d ''windows'') ''icon.ico''))))
         (main_events d b)"
  unfolding main_events_def
  by (intro emits_andthen emits_produce emits_backup_branch emits_summary)

lemma main_trace:
  assumes "exists w (join d ''appicon.svg'')"
  shows "case main True enc d w of
           Returned w' \<Rightarrow> log w' = log w @ main_events d (exists w (join d ''appicon.png.backup''))
         | Raised e w' \<Rightarrow>
             (\<exists>n. log w' = log w @ take n (main_events d (exists w (join d ''appicon.png.backup''))))"
  using emits_chain [of enc d "exists w (join d ''appicon.png.backup'')"]
  unfolding main_chain [OF assms] emits_def by blast

subsection \<open>When \<open>main\<close> returns\<close>

lemma is_svgE: "is_svg x \<Longrightarrow> \<exists>doc t. x = Some (File (SvgData doc) t)"
  by (erule is_svg.elims) simp_all

lemma main_ready_iff:
  assumes "exists w (join d ''appicon.svg'')"
  shows "(\<exists>w'. main True enc d w = Returned w') \<longleftrightarrow> ready d w"
proof
  assume "\<exists>w'. main True enc d w = Returned w'"
  then obtain w' where "main True enc d w = Returned w'" ..
  with assms show "ready d w"
    by (auto simp: run_defs split: if_splits option.splits node.splits file_data.splits list.splits)
next
  assume r: "ready d w"
  then obtain doc t where "entries w (join d ''appicon.svg'') = Some (File (SvgData doc) t)"
    using is_svgE unfolding ready_def by blast
  with r show "\<exists>w'. main True enc d w = Returned w'"
    by (auto simp: run_defs split: if_splits option.splits node.splits file_data.splits list.splits)
qed

lemma main_files:
  assumes "main True enc d w = Returned w'"
    and "entries w (join d ''appicon.svg'') = Some (File (SvgData doc) t)"
  shows "entries w' (join d ''appicon.png'') = Some (File (PngData (Rasterized doc 512 512)) (clock w))"
    and "entries w' (join d ''icon_256.png'') = Some (File (PngData (Rasterized doc 256 256)) (clock w + 1))"
    and "entries w' (join d ''icon_128.png'') = Some (File (PngData (Rasterized doc 128 128)) (clock w + 2))"
    and "entries w' (join d ''icon_64.png'') = Some (File (PngData (Rasterized doc 64 64)) (clock w + 3))"
    and "entries w' (join d ''windows'') = Some Dir"
    and "\<not> exists w (join d ''appicon.png.backup'') \<Longrightarrow>
         entries w' (join d ''appicon.png.backup'') = entries w' (join d ''appicon.png'')"
  using assms
  by (auto simp: run_defs split: if_splits option.splits node.splits file_data.splits list.splits)

subsection \<open>The backup and the trace of a run\<close>

lemma split_unique:
  assumes "P @ c # S = evs1 @ x # rest" and "Q x"
    and "\<forall>e\<in>set P. \<not> Q e" and "\<forall>e\<in>set S. \<not> Q e"
  shows "evs1 = P \<and> x = c \<and> rest = S"
  using assms
  by (auto simp: append_eq_append_conv2 append_eq_Cons_conv Cons_eq_append_conv)

lemma tail_never_raises:
  "andthen (backup_branch d b) (summary d a c) w1 = Raised e w2 \<Longrightarrow> w2 = w1"
  by (auto simp: backup_branch_def andthen_def copy2_def print_def summary_def
      split: if_splits option.splits node.splits outcome.splits)

lemma main_Raised_backup:
  assumes "main deps enc d w = Raised e w'"
  shows "entries w' (join d ''appicon.png.backup'') = entries w (join d ''appicon.png.backup'')"
proof -
  from assms have deps: "deps" and svg: "exists w (join d ''appicon.svg'')"
    by (auto simp: main_def Let_def print_def split: if_splits)
  let ?T = "andthen (backup_branch d (exists w (join d ''appicon.png.backup'')))
                    (summary d (join d ''appicon.png'') (join (join d ''windows'') ''icon.ico''))"
  from assms deps have r: "andthen (produce enc d) ?T w = Raised e w'"
    using main_chain [OF svg, of enc] by simp
  have k: "entries (after (produce enc d w)) (join d ''appicon.png.backup'') =
           entries w (join d ''appicon.png.backup'')"
    using keeps_produce [of d enc] by (simp add: keeps_def)
  show ?thesis
  proof (cases "produce enc d w")
    case (Returned w1)
    with r have "?T w1 = Raised e w'" by (simp add: andthen_def)
    then have "w' = w1" by (rule tail_never_raises)
    with k Returned show ?thesis by simp
  next
    case (Raised e1 w1)
    with r have "w' = w1" by (simp add: andthen_def)
    with k Raised show ?thesis by simp
  qed
qed

lemma main_keeps_backup:
  assumes "exists w (join d ''appicon.png.backup'')"
  shows "entries (after (main deps enc d w)) (join d ''appicon.png.backup'') =
         entries w (join d ''appicon.png.backup'')"
proof (cases "deps \<and> exists w (join d ''appicon.svg'')")
  case True
  have "keeps (join d ''appicon.png.backup'')
          (andthen (produce enc d)
             (andthen (backup_branch d True)
                (summary d (join d ''appicon.png'') (join (join d ''windows'') ''icon.ico''))))"
    by (intro keeps_andthen keeps_produce keeps_summary) (simp add: backup_branch_def keeps_Returned)
  with True assms show ?thesis
    using main_chain [of w d enc] by (simp add: keeps_def)
next
  case False
  then show ?thesis
    by (auto simp: main_def Let_def print_def)
qed

lemma script_main: "script Imported enc d w = main True enc d w"
  by (simp add: script_def import_libraries_def has_deps_of_def andthen_def)

lemma script_no_deps:
  "script ModuleMissing enc d w =
   Returned (w\<lparr>log := log w @ [Printed MsgMissingDeps, Printed MsgPipInstall, Printed MsgBlank]\<rparr>)"
  by (simp add: script_def import_libraries_def has_deps_of_def main_def andthen_def print_def)

lemma script_load_failed: "script (LoadFailed e) enc d w = Raised e w"
  by (simp add: script_def import_libraries_def andthen_def)

lemma events_of_append: "log w' = log w @ evs \<Longrightarrow> events_of w w' = evs"
  by (simp add: events_of_def)

lemma main_Returned_events:
  assumes "main True enc d w = Returned w'" and "exists w (join d ''appicon.svg'')"
  shows "events_of w w' = main_events d (exists w (join d ''appicon.png.backup''))"
  using main_trace [OF assms(2), of enc] assms(1) by (simp add: events_of_append)

lemma main_events_prefix:
  assumes "exists w (join d ''appicon.svg'')"
  shows "\<exists>n. events_of w (after (main True enc d w)) =
              take n (main_events d (exists w (join d ''appicon.png.backup'')))"
proof -
  let ?L = "main_events d (exists w (join d ''appicon.png.backup''))"
  note t = main_trace [OF assms, of enc]
  show ?thesis
  proof (cases "main True enc d w")
    case (Returned w')
    with t have "log w' = log w @ ?L" by simp
    then have e: "events_of w w' = take (length ?L) ?L"
      by (simp add: events_of_def)
    have "\<exists>n. events_of w w' = take n ?L"
      by (rule exI [where x = "length ?L"]) (rule e)
    then show ?thesis unfolding Returned after.simps .
  next
    case (Raised e w')
    with t obtain n where "log w' = log w @ take n ?L" by auto
    then have e: "events_of w w' = take n ?L"
      by (simp add: events_of_def)
    have "\<exists>n. events_of w w' = take n ?L"
      by (rule exI [where x = n]) (rule e)
    then show ?thesis unfolding Raised after.simps .
  qed
qed

subsection \<open>Runs in the example worlds\<close>

lemma outcome_Returned_after: "\<exists>w'. r = Returned w' \<Longrightarrow> r = Returned (after r)"
  by auto

lemma ready_fresh: "ready build_dir fresh_world"
  by (simp add: ready_def build_dir_def fresh_world_def join_def can_write_def dir_ok_def exists_def)

lemma ready_rerun: "ready build_dir rerun_world"
  by (simp add: ready_def build_dir_def rerun_world_def join_def can_write_def dir_ok_def exists_def)

lemma svg_fresh: "exists fresh_world (join build_dir ''appicon.svg'')"
  by (simp add: build_dir_def fresh_world_def join_def exists_def)

lemma svg_rerun: "exists rerun_world (join build_dir ''appicon.svg'')"
  by (simp add: build_dir_def rerun_world_def join_def exists_def)

lemma fresh_returns:
  "main True enc build_dir fresh_world = Returned (after (main True enc build_dir fresh_world))"
  using main_ready_iff [OF svg_fresh, of enc] ready_fresh
  by (intro outcome_Returned_after) simp

lemma rerun_returns:
  "main True enc build_dir rerun_world = Returned (after (main True enc build_dir rerun_world))"
  using main_ready_iff [OF svg_rerun, of enc] ready_rerun
  by (intro outcome_Returned_after) simp

lemma corrupt_run:
  "main True enc build_dir corrupt_world = Raised ParseError (corrupt_world\<lparr>log := [Printed MsgStart]\<rparr>)"
  by (simp add: main_def Let_def exists_def andthen_def print_def svg_to_png_def svg2png_def
      join_def build_dir_def corrupt_world_def)

lemma stale_run:
  "main True enc build_dir stale_world =
   Returned (stale_world\<lparr>log := [Printed (MsgSvgNotFound ''/app/build/appicon.svg'')]\<rparr>)"
  by (simp add: main_def Let_def exists_def print_def join_def build_dir_def stale_world_def)

section \<open>The claims\<close>

subsection \<open>Early exits\<close>

text \<open>
  Claim C3, amended. When a library is not installed, so that the import raises
  \<open>ImportError\<close>, the program prints the three lines of installation guidance and
  returns: no exception is raised, and the file system, the clock and everything else in
  the world except the printed output are as they were. When the import fails with any
  other exception, that exception ends the program: nothing is printed, no file is
  touched, and the exception is not handled.
\<close>

theorem unavailable_libraries_outcomes:
  "script ModuleMissing enc d w =
     Returned (w\<lparr>log := log w @ [Printed MsgMissingDeps, Printed MsgPipInstall, Printed MsgBlank]\<rparr>) \<and>
   script (LoadFailed e) enc d w = Raised e w"
  by (simp add: script_def import_libraries_def has_deps_of_def main_def andthen_def print_def)

theorem unavailable_libraries_outcomes_witness:
  "script ModuleMissing pillow_encoder build_dir fresh_world =
     Returned (fresh_world\<lparr>log := [Printed MsgMissingDeps, Printed MsgPipInstall, Printed MsgBlank]\<rparr>) \<and>
   script (LoadFailed OSError) pillow_encoder build_dir fresh_world = Raised OSError fresh_world"
  using unavailable_libraries_outcomes [of pillow_encoder build_dir fresh_world OSError]
  by (simp add: fresh_world_def)

theorem load_failure_unhandled_counterexample:
  "script (LoadFailed OSError) pillow_encoder build_dir fresh_world = Raised OSError fresh_world \<and>
   log fresh_world = []"
  by (simp add: script_def import_libraries_def andthen_def fresh_world_def)

text \<open>
  Claim C4. With the libraries present and no entry at the computed source path,
  \<open>main\<close> prints the error line that names that path and returns: nothing else is
  printed, no file is touched and no exception is raised. Running the script is then the
  same as calling \<open>main\<close>.
\<close>

theorem missing_source_stops:
  assumes "\<not> exists w (join d ''appicon.svg'')"
  shows "main True enc d w =
           Returned (w\<lparr>log := log w @ [Printed (MsgSvgNotFound (join d ''appicon.svg''))]\<rparr>) \<and>
         script Imported enc d w = main True enc d w"
  using assms
  by (simp add: main_def Let_def print_def script_def import_libraries_def has_deps_of_def
      andthen_def)

theorem missing_source_stops_witness:
  "\<not> exists stale_world (join build_dir ''appicon.svg'') \<and>
   main True pillow_encoder build_dir stale_world =
     Returned (stale_world\<lparr>log := [Printed (MsgSvgNotFound ''/app/build/appicon.svg'')]\<rparr>)"
proof -
  have h: "\<not> exists stale_world (join build_dir ''appicon.svg'')"
    by (simp add: exists_def stale_world_def build_dir_def join_def)
  from missing_source_stops [OF h, of pillow_encoder] h show ?thesis
    by (simp add: stale_world_def build_dir_def join_def)
qed

subsection \<open>The rasters\<close>

lemma svg_to_png_size:
  "svg_to_png svg png s w = Returned w' \<Longrightarrow> png_size w' png = Some (s, s)"
  by (auto simp: svg_to_png_def svg2png_def write_file_def andthen_def print_def png_size_def
      split: option.splits node.splits file_data.splits if_splits)

lemma main_Returned_svg:
  assumes "main True enc d w = Returned w'" and "exists w (join d ''appicon.svg'')"
  shows "\<exists>doc t. entries w (join d ''appicon.svg'') = Some (File (SvgData doc) t)"
proof -
  from assms have "ready d w"
    using main_ready_iff [OF assms(2), of enc] by blast
  then show ?thesis
    by (simp add: ready_def is_svgE)
qed

text \<open>
  Claim C5. Whenever \<open>svg_to_png\<close> returns, the file at its destination is a PNG whose
  width and height are both the requested size; after a run of \<open>main\<close> that returns,
  the four PNG files are 512, 256, 128 and 64 pixels square; and every image that
  \<open>create_ico\<close> makes for the icon container is square.
\<close>

theorem rasters_are_square:
  "(svg_to_png svg png s w = Returned w' \<longrightarrow> png_size w' png = Some (s, s)) \<and>
   (main True enc d w = Returned w' \<and> exists w (join d ''appicon.svg'') \<longrightarrow>
      png_size w' (join d ''appicon.png'') = Some (512, 512) \<and>
      png_size w' (join d ''icon_256.png'') = Some (256, 256) \<and>
      png_size w' (join d ''icon_128.png'') = Some (128, 128) \<and>
      png_size w' (join d ''icon_64.png'') = Some (64, 64)) \<and>
   (\<forall>im \<in> set (resize_each img ico_sizes). img_width im = img_height im)"
proof (intro conjI impI)
  assume "svg_to_png svg png s w = Returned w'"
  then show "png_size w' png = Some (s, s)"
    by (rule svg_to_png_size)
next
  show "\<forall>im \<in> set (resize_each img ico_sizes). img_width im = img_height im"
    by (simp add: ico_sizes_def resize_def img_width_def img_height_def)
next
  assume a: "main True enc d w = Returned w' \<and> exists w (join d ''appicon.svg'')"
  then obtain doc t where s: "entries w (join d ''appicon.svg'') = Some (File (SvgData doc) t)"
    using main_Returned_svg by blast
  from a have m: "main True enc d w = Returned w'" ..
  show "png_size w' (join d ''appicon.png'') = Some (512, 512)"
    using main_files(1) [OF m s] by (simp add: png_size_def)
  show "png_size w' (join d ''icon_256.png'') = Some (256, 256)"
    using main_files(2) [OF m s] by (simp add: png_size_def)
  show "png_size w' (join d ''icon_128.png'') = Some (128, 128)"
    using main_files(3) [OF m s] by (simp add: png_size_def)
  show "png_size w' (join d ''icon_64.png'') = Some (64, 64)"
    using main_files(4) [OF m s] by (simp add: png_size_def)
qed

theorem rasters_are_square_witness:
  "main True pillow_encoder build_dir fresh_world =
     Returned (after (main True pillow_encoder build_dir fresh_world)) \<and>
   exists fresh_world (join build_dir ''appicon.svg'') \<and>
   png_size (after (main True pillow_encoder build_dir fresh_world)) ''/app/build/appicon.png'' =
     Some (512, 512) \<and>
   png_size (after (main True pillow_encoder build_dir fresh_world)) ''/app/build/icon_256.png'' =
     Some (256, 256) \<and>
   png_size (after (main True pillow_encoder build_dir fresh_world)) ''/app/build/icon_128.png'' =
     Some (128, 128) \<and>
   png_size (after (main True pillow_encoder build_dir fresh_world)) ''/app/build/icon_64.png'' =
     Some (64, 64)"
proof -
  note r = fresh_returns [of pillow_encoder]
  from rasters_are_square [where w = fresh_world and d = build_dir and enc = pillow_encoder
      and w' = "after (main True pillow_encoder build_dir fresh_world)"] r svg_fresh
  have "png_size (after (main True pillow_encoder build_dir fresh_world)) (join build_dir ''appicon.png'') =
          Some (512, 512) \<and>
        png_size (after (main True pillow_encoder build_dir fresh_world)) (join build_dir ''icon_256.png'') =
          Some (256, 256) \<and>
        png_size (after (main True pillow_encoder build_dir fresh_world)) (join build_dir ''icon_128.png'') =
          Some (128, 128) \<and>
        png_size (after (main True pillow_encoder build_dir fresh_world)) (join build_dir ''icon_64.png'') =
          Some (64, 64)"
    by blast
  then show ?thesis
    using r svg_fresh by (simp add: join_def build_dir_def)
qed

text \<open>
  Claim C6. After a run of \<open>main\<close> that returns, each of the files
  \<open>icon_256.png\<close>, \<open>icon_128.png\<close> and \<open>icon_64.png\<close> holds the image rasterised
  at that size from the document in the source file itself: the image is a
  \<open>Rasterized\<close> term over the source document, not a \<open>Resized\<close> term over the
  512-pixel raster.
\<close>

theorem small_pngs_rasterized_from_source:
  assumes "main True enc d w = Returned w'"
    and "entries w (join d ''appicon.svg'') = Some (File (SvgData doc) t)"
  shows "png_image w' (join d ''icon_256.png'') = Some (Rasterized doc 256 256) \<and>
         png_image w' (join d ''icon_128.png'') = Some (Rasterized doc 128 128) \<and>
         png_image w' (join d ''icon_64.png'') = Some (Rasterized doc 64 64)"
  using main_files(2,3,4) [OF assms] by (simp add: png_image_def)

theorem small_pngs_rasterized_from_source_witness:
  "main True pillow_encoder build_dir fresh_world =
     Returned (after (main True pillow_encoder build_dir fresh_world)) \<and>
   entries fresh_world (join build_dir ''appicon.svg'') = Some (File (SvgData ''<svg/>'') 7) \<and>
   png_image (after (main True pillow_encoder build_dir fresh_world)) ''/app/build/icon_256.png'' =
     Some (Rasterized ''<svg/>'' 256 256) \<and>
   png_image (after (main True pillow_encoder build_dir fresh_world)) ''/app/build/icon_128.png'' =
     Some (Rasterized ''<svg/>'' 128 128) \<and>
   png_image (after (main True pillow_encoder build_dir fresh_world)) ''/app/build/icon_64.png'' =
     Some (Rasterized ''<svg/>'' 64 64)"
proof -
  note r = fresh_returns [of pillow_encoder]
  have s: "entries fresh_world (join build_dir ''appicon.svg'') = Some (File (SvgData ''<svg/>'') 7)"
    by (simp add: fresh_world_def build_dir_def join_def)
  from small_pngs_rasterized_from_source [OF r s] r s show ?thesis
    by (simp add: join_def build_dir_def)
qed

subsection \<open>Unhandled failures\<close>



subsection \<open>The backup step in the trace\<close>

lemma exists_backup_fresh: "\<not> exists fresh_world (join build_dir ''appicon.png.backup'')"
  by (simp add: exists_def fresh_world_def build_dir_def join_def)

lemma fresh_events:
  "events_of fresh_world (after (main True enc build_dir fresh_world)) = main_events build_dir False"
  using main_Returned_events [OF fresh_returns svg_fresh, of enc] exists_backup_fresh
  by simp

lemma copy_position:
  assumes "events_of w (after (main deps enc d w)) = evs1 @ Copied src dst # evs2"
  shows "evs1 = produce_events d \<and> src = join d ''appicon.png'' \<and>
         dst = join d ''appicon.png.backup'' \<and> (\<forall>e\<in>set evs2. is_print e)"
proof -
  let ?b = "exists w (join d ''appicon.png.backup'')"
  let ?L = "main_events d ?b"
  let ?Q = "\<lambda>e. \<exists>s t. e = Copied s t"
  have ds: "deps \<and> exists w (join d ''appicon.svg'')"
  proof (rule ccontr)
    assume "\<not> (deps \<and> exists w (join d ''appicon.svg''))"
    then have "events_of w (after (main deps enc d w)) = [] \<or>
               events_of w (after (main deps enc d w)) =
                 [Printed (MsgSvgNotFound (join d ''appicon.svg''))]"
      by (auto simp: main_def Let_def print_def events_of_def)
    with assms show False
      by (auto simp: append_eq_Cons_conv)
  qed
  then obtain n where n: "evs1 @ Copied src dst # evs2 = take n ?L"
    using main_events_prefix [of w d enc] assms by auto
  then have "Copied src dst \<in> set (take n ?L)"
    by (metis in_set_conv_decomp)
  then have mem: "Copied src dst \<in> set ?L"
    by (rule in_set_takeD)
  have nb: "\<not> ?b"
  proof
    assume ?b
    with mem show False
      by (simp add: main_events_def backup_events_def produce_events_def summary_events_def)
  qed
  let ?R = "Printed (MsgBackedUp (join d ''appicon.png.backup'')) # summary_events d"
  from nb have L: "?L = produce_events d @
      Copied (join d ''appicon.png'') (join d ''appicon.png.backup'') # ?R"
    by (simp add: main_events_def backup_events_def)
  define rest where "rest = drop n ?L"
  have "?L = take n ?L @ rest"
    by (simp add: rest_def)
  with n have dec: "?L = evs1 @ Copied src dst # (evs2 @ rest)"
    by (metis append_Cons append_assoc)
  from L [symmetric] dec have eq: "produce_events d @
      Copied (join d ''appicon.png'') (join d ''appicon.png.backup'') # ?R =
      evs1 @ Copied src dst # (evs2 @ rest)"
    by (rule trans)
  have "evs1 = produce_events d \<and>
        Copied src dst = Copied (join d ''appicon.png'') (join d ''appicon.png.backup'') \<and>
        evs2 @ rest = ?R"
    by (rule split_unique [OF eq, where Q = ?Q])
       (auto simp: produce_events_def summary_events_def)
  moreover from this have "set evs2 \<subseteq> set ?R"
    by (metis set_append Un_upper1)
  then have "\<forall>e\<in>set evs2. is_print e"
    by (auto simp: summary_events_def)
  ultimately show ?thesis by simp
qed

text \<open>
  Claim C10. In every run of \<open>main\<close>, however it ends, a copy event is the copy of
  \<open>appicon.png\<close> to the backup path, the five output files have all been written
  before it, and only printing follows it; and a run that ends by raising leaves the entry
  at the backup path as it was.
\<close>

theorem backup_is_last_file_step:
  "(events_of w (after (main deps enc d w)) = evs1 @ Copied src dst # evs2 \<longrightarrow>
      src = join d ''appicon.png'' \<and> dst = join d ''appicon.png.backup'' \<and>
      Wrote (join d ''appicon.png'') \<in> set evs1 \<and>
      Wrote (join d ''icon_256.png'') \<in> set evs1 \<and>
      Wrote (join d ''icon_128.png'') \<in> set evs1 \<and>
      Wrote (join d ''icon_64.png'') \<in> set evs1 \<and>
      Wrote (join (join d ''windows'') ''icon.ico'') \<in> set evs1 \<and>
      (\<forall>e\<in>set evs2. is_print e)) \<and>
   (main deps enc d w = Raised e w' \<longrightarrow>
      entries w' (join d ''appicon.png.backup'') = entries w (join d ''appicon.png.backup''))"
proof (intro conjI impI)
  assume r: "main deps enc d w = Raised e w'"
  then show "entries w' (join d ''appicon.png.backup'') = entries w (join d ''appicon.png.backup'')"
    by (rule main_Raised_backup)
next
  assume a: "events_of w (after (main deps enc d w)) = evs1 @ Copied src dst # evs2"
  note c = copy_position [OF a]
  from c show "src = join d ''appicon.png''" by simp
  from c show "dst = join d ''appicon.png.backup''" by simp
  from c show "\<forall>e\<in>set evs2. is_print e" by simp
  from c have p: "evs1 = produce_events d" by simp
  show "Wrote (join d ''appicon.png'') \<in> set evs1"
    by (simp add: p produce_events_def)
  show "Wrote (join d ''icon_256.png'') \<in> set evs1"
    by (simp add: p produce_events_def)
  show "Wrote (join d ''icon_128.png'') \<in> set evs1"
    by (simp add: p produce_events_def)
  show "Wrote (join d ''icon_64.png'') \<in> set evs1"
    by (simp add: p produce_events_def)
  show "Wrote (join (join d ''windows'') ''icon.ico'') \<in> set evs1"
    by (simp add: p produce_events_def)
qed

theorem backup_is_last_file_step_witness:
  "events_of fresh_world (after (main True pillow_encoder build_dir fresh_world)) =
     produce_events build_dir @
     Copied ''/app/build/appicon.png'' ''/app/build/appicon.png.backup'' #
     (Printed (MsgBackedUp ''/app/build/appicon.png.backup'') # summary_events build_dir) \<and>
   Wrote ''/app/build/appicon.png'' \<in> set (produce_events build_dir) \<and>
   Wrote ''/app/build/icon_256.png'' \<in> set (produce_events build_dir) \<and>
   Wrote ''/app/build/icon_128.png'' \<in> set (produce_events build_dir) \<and>
   Wrote ''/app/build/icon_64.png'' \<in> set (produce_events build_dir) \<and>
   Wrote ''/app/build/windows/icon.ico'' \<in> set (produce_events build_dir) \<and>
   list_all is_print
     (Printed (MsgBackedUp ''/app/build/appicon.png.backup'') # summary_events build_dir) \<and>
   main True pillow_encoder build_dir corrupt_world =
     Raised ParseError (corrupt_world\<lparr>log := [Printed MsgStart]\<rparr>) \<and>
   entries (corrupt_world\<lparr>log := [Printed MsgStart]\<rparr>) ''/app/build/appicon.png.backup'' =
     entries corrupt_world ''/app/build/appicon.png.backup''"
proof -
  have a: "events_of fresh_world (after (main True pillow_encoder build_dir fresh_world)) =
     produce_events build_dir @
     Copied ''/app/build/appicon.png'' ''/app/build/appicon.png.backup'' #
     (Printed (MsgBackedUp ''/app/build/appicon.png.backup'') # summary_events build_dir)"
    by (simp only: fresh_events) (simp add: main_events_def backup_events_def join_def build_dir_def)
  note r = corrupt_run [of pillow_encoder]
  from backup_is_last_file_step [where w = fresh_world and deps = True and enc = pillow_encoder
      and d = build_dir and ?evs1.0 = "produce_events build_dir"
      and src = "''/app/build/appicon.png''" and dst = "''/app/build/appicon.png.backup''"
      and ?evs2.0 = "Printed (MsgBackedUp ''/app/build/appicon.png.backup'') # summary_events build_dir"] a
  have 1: "Wrote (join build_dir ''appicon.png'') \<in> set (produce_events build_dir) \<and>
      Wrote (join build_dir ''icon_256.png'') \<in> set (produce_events build_dir) \<and>
      Wrote (join build_dir ''icon_128.png'') \<in> set (produce_events build_dir) \<and>
      Wrote (join build_dir ''icon_64.png'') \<in> set (produce_events build_dir) \<and>
      Wrote (join (join build_dir ''windows'') ''icon.ico'') \<in> set (produce_events build_dir) \<and>
      (\<forall>e\<in>set (Printed (MsgBackedUp ''/app/build/appicon.png.backup'') # summary_events build_dir).
         is_print e)"
    by blast
  from backup_is_last_file_step [where w = corrupt_world and deps = True and enc = pillow_encoder
      and d = build_dir and e = ParseError and w' = "corrupt_world\<lparr>log := [Printed MsgStart]\<rparr>"] r
  have 2: "entries (corrupt_world\<lparr>log := [Printed MsgStart]\<rparr>) (join build_dir ''appicon.png.backup'') =
     entries corrupt_world (join build_dir ''appicon.png.backup'')"
    by blast
  have j: "join build_dir ''appicon.png'' = ''/app/build/appicon.png''"
    "join build_dir ''icon_256.png'' = ''/app/build/icon_256.png''"
    "join build_dir ''icon_128.png'' = ''/app/build/icon_128.png''"
    "join build_dir ''icon_64.png'' = ''/app/build/icon_64.png''"
    "join (join build_dir ''windows'') ''icon.ico'' = ''/app/build/windows/icon.ico''"
    "join build_dir ''appicon.png.backup'' = ''/app/build/appicon.png.backup''"
    by (simp_all add: join_def build_dir_def)
  from 1 have 3: "list_all is_print
      (Printed (MsgBackedUp ''/app/build/appicon.png.backup'') # summary_events build_dir)"
    unfolding list_all_iff by blast
  from a 1 2 3 r show ?thesis
    unfolding j by blast
qed

subsection \<open>The output directory\<close>

lemma svg_second: "exists second_world (join build_dir ''appicon.svg'')"
  by (simp add: build_dir_def second_world_def join_def exists_def)

lemma ready_second: "ready build_dir second_world"
  by (simp add: ready_def build_dir_def second_world_def join_def can_write_def dir_ok_def exists_def)

lemma second_returns:
  "main True enc build_dir second_world = Returned (after (main True enc build_dir second_world))"
  using main_ready_iff [OF svg_second, of enc] ready_second
  by (intro outcome_Returned_after) simp

lemma mkdir_no_error_when_present:
  assumes "entries w (join d ''windows'') = Some Dir"
  shows "main deps enc d w \<noteq> Raised FileExistsError w'"
  using assms
  by (auto simp: run_defs split: if_splits option.splits node.splits file_data.splits list.splits sum.splits)

text \<open>
  Claim C7. \<open>mkdir(exist_ok=True)\<close> creates the directory when nothing is at the
  path, and returns without an error and without changing the file system when the
  directory is already there. \<open>main\<close> makes this call for the \<open>windows\<close>
  directory: whether that directory is missing or already present, \<open>main\<close> returns
  when its other calls can succeed, the directory exists after every run that returns,
  and a run that starts with the directory present never ends with
  \<open>FileExistsError\<close>.
\<close>

theorem output_directory_ensured:
  "(entries w p = None \<and> writable w p \<longrightarrow>
      mkdir_exist_ok p w =
        Returned (w\<lparr>entries := (entries w)(p \<mapsto> Dir), log := log w @ [EnsuredDir p]\<rparr>)) \<and>
   (entries w p = Some Dir \<longrightarrow>
      mkdir_exist_ok p w = Returned (w\<lparr>log := log w @ [EnsuredDir p]\<rparr>)) \<and>
   (main True enc d w = Returned w' \<and> exists w (join d ''appicon.svg'') \<longrightarrow>
      entries w' (join d ''windows'') = Some Dir \<and>
      EnsuredDir (join d ''windows'') \<in> set (events_of w w')) \<and>
   (exists w (join d ''appicon.svg'') \<and> ready d w \<longrightarrow>
      main True enc d w = Returned (after (main True enc d w)) \<and>
      entries (after (main True enc d w)) (join d ''windows'') = Some Dir) \<and>
   (entries w (join d ''windows'') = Some Dir \<longrightarrow>
      main deps enc d w \<noteq> Raised FileExistsError w'')"
proof (intro conjI impI)
  assume "entries w p = None \<and> writable w p"
  then show "mkdir_exist_ok p w =
      Returned (w\<lparr>entries := (entries w)(p \<mapsto> Dir), log := log w @ [EnsuredDir p]\<rparr>)"
    by (simp add: mkdir_exist_ok_def)
next
  assume "entries w p = Some Dir"
  then show "mkdir_exist_ok p w = Returned (w\<lparr>log := log w @ [EnsuredDir p]\<rparr>)"
    by (simp add: mkdir_exist_ok_def)
next
  assume a: "main True enc d w = Returned w' \<and> exists w (join d ''appicon.svg'')"
  then obtain doc t where s: "entries w (join d ''appicon.svg'') = Some (File (SvgData doc) t)"
    using main_Returned_svg by blast
  from a have m: "main True enc d w = Returned w'" ..
  show "entries w' (join d ''windows'') = Some Dir"
    using main_files(5) [OF m s] .
  from a have "events_of w w' = main_events d (exists w (join d ''appicon.png.backup''))"
    using main_Returned_events by blast
  then show "EnsuredDir (join d ''windows'') \<in> set (events_of w w')"
    by (simp add: main_events_def produce_events_def)
next
  assume a: "exists w (join d ''appicon.svg'') \<and> ready d w"
  then have "\<exists>w1. main True enc d w = Returned w1"
    using main_ready_iff [of w d enc] by blast
  then show r: "main True enc d w = Returned (after (main True enc d w))"
    by (rule outcome_Returned_after)
  from a obtain doc t where s: "entries w (join d ''appicon.svg'') = Some (File (SvgData doc) t)"
    by (auto simp: ready_def dest: is_svgE)
  show "entries (after (main True enc d w)) (join d ''windows'') = Some Dir"
    using main_files(5) [OF r s] .
next
  assume "entries w (join d ''windows'') = Some Dir"
  then show "main deps enc d w \<noteq> Raised FileExistsError w''"
    by (rule mkdir_no_error_when_present)
qed

theorem output_directory_ensured_witness:
  "(entries fresh_world ''/app/build/windows'' = None \<and> writable fresh_world ''/app/build/windows'') \<and>
   mkdir_exist_ok ''/app/build/windows'' fresh_world =
     Returned (fresh_world\<lparr>entries := (entries fresh_world)(''/app/build/windows'' \<mapsto> Dir),
                            log := [EnsuredDir ''/app/build/windows'']\<rparr>) \<and>
   entries rerun_world ''/app/build/windows'' = Some Dir \<and>
   mkdir_exist_ok ''/app/build/windows'' rerun_world =
     Returned (rerun_world\<lparr>log := [EnsuredDir ''/app/build/windows'']\<rparr>) \<and>
   (exists fresh_world (join build_dir ''appicon.svg'') \<and> ready build_dir fresh_world) \<and>
   main True pillow_encoder build_dir fresh_world =
     Returned (after (main True pillow_encoder build_dir fresh_world)) \<and>
   entries (after (main True pillow_encoder build_dir fresh_world)) ''/app/build/windows'' = Some Dir \<and>
   (exists rerun_world (join build_dir ''appicon.svg'') \<and> ready build_dir rerun_world) \<and>
   main True pillow_encoder build_dir rerun_world =
     Returned (after (main True pillow_encoder build_dir rerun_world)) \<and>
   entries (after (main True pillow_encoder build_dir rerun_world)) ''/app/build/windows'' = Some Dir \<and>
   main True pillow_encoder build_dir rerun_world \<noteq> Raised FileExistsError rerun_world"
proof -
  have a: "entries fresh_world ''/app/build/windows'' = None \<and> writable fresh_world ''/app/build/windows''"
    by (simp add: fresh_world_def)
  have b: "entries rerun_world ''/app/build/windows'' = Some Dir"
    by (simp add: rerun_world_def)
  have b': "entries rerun_world (join build_dir ''windows'') = Some Dir"
    by (simp add: rerun_world_def join_def build_dir_def)
  have c: "exists fresh_world (join build_dir ''appicon.svg'') \<and> ready build_dir fresh_world"
    using svg_fresh ready_fresh by simp
  have d: "exists rerun_world (join build_dir ''appicon.svg'') \<and> ready build_dir rerun_world"
    using svg_rerun ready_rerun by simp
  from output_directory_ensured [where w = fresh_world and p = "''/app/build/windows''"] a
  have 1: "mkdir_exist_ok ''/app/build/windows'' fresh_world =
     Returned (fresh_world\<lparr>entries := (entries fresh_world)(''/app/build/windows'' \<mapsto> Dir),
                            log := log fresh_world @ [EnsuredDir ''/app/build/windows'']\<rparr>)"
    by blast
  from output_directory_ensured [where w = rerun_world and p = "''/app/build/windows''"] b
  have 2: "mkdir_exist_ok ''/app/build/windows'' rerun_world =
     Returned (rerun_world\<lparr>log := log rerun_world @ [EnsuredDir ''/app/build/windows'']\<rparr>)"
    by blast
  from output_directory_ensured [where w = fresh_world and d = build_dir and enc = pillow_encoder] c
  have 3: "main True pillow_encoder build_dir fresh_world =
       Returned (after (main True pillow_encoder build_dir fresh_world)) \<and>
     entries (after (main True pillow_encoder build_dir fresh_world)) (join build_dir ''windows'') = Some Dir"
    by blast
  from output_directory_ensured [where w = rerun_world and d = build_dir and enc = pillow_encoder
      and deps = True and w'' = rerun_world] d b'
  have 4: "main True pillow_encoder build_dir rerun_world =
       Returned (after (main True pillow_encoder build_dir rerun_world)) \<and>
     entries (after (main True pillow_encoder build_dir rerun_world)) (join build_dir ''windows'') = Some Dir \<and>
     main True pillow_encoder build_dir rerun_world \<noteq> Raised FileExistsError rerun_world"
    by blast
  have l: "log fresh_world = []" "log rerun_world = []"
    by (simp_all add: fresh_world_def rerun_world_def)
  have j: "join build_dir ''windows'' = ''/app/build/windows''"
    by (simp add: join_def build_dir_def)
  from a b c d 1 2 3 4 show ?thesis
    unfolding l j by simp
qed

subsection \<open>The backup\<close>

lemma script_keeps_backup:
  assumes "exists w (join d ''appicon.png.backup'')"
  shows "entries (after (script imp enc d w)) (join d ''appicon.png.backup'') =
         entries w (join d ''appicon.png.backup'')"
proof (cases imp)
  case Imported
  with main_keeps_backup [OF assms, of True enc] show ?thesis
    by (simp add: script_main)
next
  case ModuleMissing
  then show ?thesis
    by (simp add: script_no_deps)
next
  case (LoadFailed e)
  then show ?thesis
    by (simp add: script_load_failed)
qed

text \<open>
  Claim C2, amended. In a run of \<open>main\<close> that passes both checks and returns, the
  backup is created (by copying \<open>appicon.png\<close>, contents and modification time) if and
  only if it did not exist when the run started, and it exists afterwards; and in every
  run of the script, however it ends, a backup that exists at the start is left as it is,
  contents and modification time. A run that stops early creates no backup, so the
  equivalence does not hold for every run.
\<close>

theorem backup_created_only_when_absent:
  "(main True enc d w = Returned w' \<and> exists w (join d ''appicon.svg'') \<longrightarrow>
      (Copied (join d ''appicon.png'') (join d ''appicon.png.backup'') \<in> set (events_of w w')
         \<longleftrightarrow> \<not> exists w (join d ''appicon.png.backup'')) \<and>
      exists w' (join d ''appicon.png.backup'') \<and>
      (\<not> exists w (join d ''appicon.png.backup'') \<longrightarrow>
         entries w' (join d ''appicon.png.backup'') = entries w' (join d ''appicon.png''))) \<and>
   (exists w (join d ''appicon.png.backup'') \<longrightarrow>
      entries (after (script imp enc d w)) (join d ''appicon.png.backup'') =
      entries w (join d ''appicon.png.backup''))"
proof (intro conjI impI)
  assume "exists w (join d ''appicon.png.backup'')"
  then show "entries (after (script imp enc d w)) (join d ''appicon.png.backup'') =
      entries w (join d ''appicon.png.backup'')"
    by (rule script_keeps_backup)
next
  assume a: "main True enc d w = Returned w' \<and> exists w (join d ''appicon.svg'')"
  then obtain doc t where s: "entries w (join d ''appicon.svg'') = Some (File (SvgData doc) t)"
    using main_Returned_svg by blast
  from a have m: "main True enc d w = Returned w'" ..
  from a have ev: "events_of w w' = main_events d (exists w (join d ''appicon.png.backup''))"
    using main_Returned_events by blast
  show "Copied (join d ''appicon.png'') (join d ''appicon.png.backup'') \<in> set (events_of w w')
         \<longleftrightarrow> \<not> exists w (join d ''appicon.png.backup'')"
    by (simp add: ev main_events_def backup_events_def produce_events_def summary_events_def)
  have c: "entries w' (join d ''appicon.png.backup'') = entries w' (join d ''appicon.png'')"
    if "\<not> exists w (join d ''appicon.png.backup'')"
    using main_files(6) [OF m s that] .
  show "exists w' (join d ''appicon.png.backup'')"
  proof (cases "exists w (join d ''appicon.png.backup'')")
    case True
    with main_keeps_backup [OF True, of True enc] m show ?thesis
      by (simp add: exists_def)
  next
    case False
    with c main_files(1) [OF m s] show ?thesis
      by (simp add: exists_def)
  qed
  show "entries w' (join d ''appicon.png.backup'') = entries w' (join d ''appicon.png'')"
    if "\<not> exists w (join d ''appicon.png.backup'')"
    using c that .
qed

theorem backup_created_only_when_absent_witness:
  "(main True pillow_encoder build_dir fresh_world =
      Returned (after (main True pillow_encoder build_dir fresh_world)) \<and>
    exists fresh_world (join build_dir ''appicon.svg'')) \<and>
   \<not> exists fresh_world (join build_dir ''appicon.png.backup'') \<and>
   Copied (join build_dir ''appicon.png'') (join build_dir ''appicon.png.backup'')
     \<in> set (events_of fresh_world (after (main True pillow_encoder build_dir fresh_world))) \<and>
   exists (after (main True pillow_encoder build_dir fresh_world)) (join build_dir ''appicon.png.backup'') \<and>
   exists rerun_world (join build_dir ''appicon.png.backup'') \<and>
   entries (after (script Imported pillow_encoder build_dir rerun_world)) (join build_dir ''appicon.png.backup'') =
     Some (File (PngData (Rasterized ''<old/>'' 512 512)) 3)"
proof -
  have a: "main True pillow_encoder build_dir fresh_world =
      Returned (after (main True pillow_encoder build_dir fresh_world)) \<and>
    exists fresh_world (join build_dir ''appicon.svg'')"
    using fresh_returns [of pillow_encoder] svg_fresh by simp
  have b: "exists rerun_world (join build_dir ''appicon.png.backup'')"
    by (simp add: exists_def rerun_world_def build_dir_def join_def)
  have v: "entries rerun_world (join build_dir ''appicon.png.backup'') =
     Some (File (PngData (Rasterized ''<old/>'' 512 512)) 3)"
    by (simp add: rerun_world_def build_dir_def join_def)
  from backup_created_only_when_absent [where w = fresh_world and d = build_dir
      and enc = pillow_encoder and w' = "after (main True pillow_encoder build_dir fresh_world)"] a
  have 1: "(Copied (join build_dir ''appicon.png'') (join build_dir ''appicon.png.backup'')
        \<in> set (events_of fresh_world (after (main True pillow_encoder build_dir fresh_world)))
         \<longleftrightarrow> \<not> exists fresh_world (join build_dir ''appicon.png.backup'')) \<and>
      exists (after (main True pillow_encoder build_dir fresh_world)) (join build_dir ''appicon.png.backup'')"
    by blast
  from backup_created_only_when_absent [where w = rerun_world and d = build_dir
      and enc = pillow_encoder and imp = Imported] b
  have 2: "entries (after (script Imported pillow_encoder build_dir rerun_world)) (join build_dir ''appicon.png.backup'') =
      entries rerun_world (join build_dir ''appicon.png.backup'')"
    by blast
  from a b 1 2 exists_backup_fresh show ?thesis
    unfolding v by blast
qed

theorem backup_not_created_counterexample:
  "exists stale_world (join build_dir ''appicon.png'') \<and>
   \<not> exists stale_world (join build_dir ''appicon.png.backup'') \<and>
   script Imported pillow_encoder build_dir stale_world =
     Returned (stale_world\<lparr>log := [Printed (MsgSvgNotFound ''/app/build/appicon.svg'')]\<rparr>) \<and>
   \<not> exists (after (script Imported pillow_encoder build_dir stale_world)) (join build_dir ''appicon.png.backup'')"
  by (simp add: script_main stale_run) (simp add: exists_def stale_world_def build_dir_def join_def)

subsection \<open>What determines a run\<close>

lemma script_events_prefix:
  "\<exists>n. events_of w (after (script imp enc d w)) =
         take n (script_events imp d (exists w (join d ''appicon.svg''))
                   (exists w (join d ''appicon.png.backup'')))"
proof (cases imp)
  case Imported
  show ?thesis
  proof (cases "exists w (join d ''appicon.svg'')")
    case True
    with main_events_prefix [OF True, of enc] Imported show ?thesis
      by (simp add: script_main script_events_def)
  next
    case False
    then have "events_of w (after (script imp enc d w)) =
        take 1 (script_events imp d (exists w (join d ''appicon.svg''))
                  (exists w (join d ''appicon.png.backup'')))"
      using Imported
      by (simp add: script_main script_events_def main_def Let_def print_def events_of_def)
    then show ?thesis by (rule exI [where x = 1])
  qed
next
  case ModuleMissing
  then have "events_of w (after (script imp enc d w)) =
      take 3 (script_events imp d (exists w (join d ''appicon.svg''))
                (exists w (join d ''appicon.png.backup'')))"
    by (simp add: script_no_deps script_events_def events_of_def)
  then show ?thesis by (rule exI [where x = 3])
next
  case (LoadFailed e)
  then have "events_of w (after (script imp enc d w)) =
      take 0 (script_events imp d (exists w (join d ''appicon.svg''))
                (exists w (join d ''appicon.png.backup'')))"
    by (simp add: script_load_failed events_of_def)
  then show ?thesis by (rule exI [where x = 0])
qed

lemma script_events_Returned:
  assumes "script imp enc d w = Returned w'"
  shows "events_of w w' =
         script_events imp d (exists w (join d ''appicon.svg''))
           (exists w (join d ''appicon.png.backup''))"
proof (cases imp)
  case Imported
  with assms have m: "main True enc d w = Returned w'"
    by (simp add: script_main)
  show ?thesis
  proof (cases "exists w (join d ''appicon.svg'')")
    case True
    with main_Returned_events [OF m True] Imported show ?thesis
      by (simp add: script_events_def)
  next
    case False
    with m Imported show ?thesis
      by (auto simp: script_events_def main_def Let_def print_def events_of_def)
  qed
next
  case ModuleMissing
  with assms show ?thesis
    by (auto simp: script_no_deps script_events_def events_of_def)
next
  case (LoadFailed e)
  with assms show ?thesis
    by (simp add: script_load_failed)
qed

lemma take_take_either:
  "(\<exists>n. take n1 xs = take n (take n2 xs)) \<or> (\<exists>n. take n2 xs = take n (take n1 xs))"
proof (cases "n1 \<le> n2")
  case True
  then have "take n1 xs = take n1 (take n2 xs)"
    by (simp add: min_def)
  then show ?thesis by blast
next
  case False
  then have "take n2 xs = take n2 (take n1 xs)"
    by (simp add: min_def)
  then show ?thesis by blast
qed

text \<open>
  Claim C9, amended. Take two runs with the same outcome of the import and the same
  presence of the source file and of the backup file. The steps of each are an initial
  part of one sequence that those observations fix, so the steps of one run are an initial
  part of the steps of the other: the two runs carry out the same steps up to the point
  where a call fails in one of them. When both runs return, both carry out the whole
  sequence, and so write the same set of output files. Whether and where a call fails is
  a further input: it is not determined by presence alone.
\<close>

theorem steps_determined_up_to_failure:
  assumes "exists w1 (join d ''appicon.svg'') \<longleftrightarrow> exists w2 (join d ''appicon.svg'')"
    and "exists w1 (join d ''appicon.png.backup'') \<longleftrightarrow> exists w2 (join d ''appicon.png.backup'')"
  shows "(\<exists>n1 n2.
            events_of w1 (after (script imp enc1 d w1)) =
              take n1 (script_events imp d (exists w1 (join d ''appicon.svg''))
                         (exists w1 (join d ''appicon.png.backup''))) \<and>
            events_of w2 (after (script imp enc2 d w2)) =
              take n2 (script_events imp d (exists w1 (join d ''appicon.svg''))
                         (exists w1 (join d ''appicon.png.backup'')))) \<and>
         ((\<exists>n. events_of w1 (after (script imp enc1 d w1)) =
                 take n (events_of w2 (after (script imp enc2 d w2)))) \<or>
          (\<exists>n. events_of w2 (after (script imp enc2 d w2)) =
                 take n (events_of w1 (after (script imp enc1 d w1))))) \<and>
         (script imp enc1 d w1 = Returned w1' \<and> script imp enc2 d w2 = Returned w2' \<longrightarrow>
            events_of w1 w1' = events_of w2 w2' \<and>
            events_of w1 w1' =
              script_events imp d (exists w1 (join d ''appicon.svg''))
                (exists w1 (join d ''appicon.png.backup'')))"
proof -
  let ?S = "script_events imp d (exists w1 (join d ''appicon.svg''))
              (exists w1 (join d ''appicon.png.backup''))"
  obtain n1 where 1: "events_of w1 (after (script imp enc1 d w1)) = take n1 ?S"
    using script_events_prefix [of w1 imp enc1 d] by blast
  obtain n2 where 2: "events_of w2 (after (script imp enc2 d w2)) = take n2 ?S"
    using script_events_prefix [of w2 imp enc2 d] assms by auto
  have a: "\<exists>n1 n2. events_of w1 (after (script imp enc1 d w1)) = take n1 ?S \<and>
                   events_of w2 (after (script imp enc2 d w2)) = take n2 ?S"
    using 1 2 by blast
  have b: "(\<exists>n. events_of w1 (after (script imp enc1 d w1)) =
                 take n (events_of w2 (after (script imp enc2 d w2)))) \<or>
           (\<exists>n. events_of w2 (after (script imp enc2 d w2)) =
                 take n (events_of w1 (after (script imp enc1 d w1))))"
    unfolding 1 2 by (rule take_take_either)
  have c: "events_of w1 w1' = events_of w2 w2' \<and> events_of w1 w1' = ?S"
    if "script imp enc1 d w1 = Returned w1' \<and> script imp enc2 d w2 = Returned w2'"
    using script_events_Returned [of imp enc1 d w1 w1']
      script_events_Returned [of imp enc2 d w2 w2'] that assms
    by simp
  from a b c show ?thesis by blast
qed

theorem steps_determined_up_to_failure_witness:
  "(exists fresh_world (join build_dir ''appicon.svg'') \<longleftrightarrow>
    exists corrupt_world (join build_dir ''appicon.svg'')) \<and>
   (exists fresh_world (join build_dir ''appicon.png.backup'') \<longleftrightarrow>
    exists corrupt_world (join build_dir ''appicon.png.backup'')) \<and>
   (\<exists>n. events_of corrupt_world (after (script Imported pillow_encoder build_dir corrupt_world)) =
          take n (events_of fresh_world (after (script Imported pillow_encoder build_dir fresh_world)))) \<and>
   (exists fresh_world (join build_dir ''appicon.svg'') \<longleftrightarrow>
    exists second_world (join build_dir ''appicon.svg'')) \<and>
   (exists fresh_world (join build_dir ''appicon.png.backup'') \<longleftrightarrow>
    exists second_world (join build_dir ''appicon.png.backup'')) \<and>
   script Imported pillow_encoder build_dir fresh_world =
     Returned (after (script Imported pillow_encoder build_dir fresh_world)) \<and>
   script Imported pillow_encoder build_dir second_world =
     Returned (after (script Imported pillow_encoder build_dir second_world)) \<and>
   events_of fresh_world (after (script Imported pillow_encoder build_dir fresh_world)) =
   events_of second_world (after (script Imported pillow_encoder build_dir second_world)) \<and>
   entries fresh_world \<noteq> entries second_world"
proof -
  have p1: "exists fresh_world (join build_dir ''appicon.svg'') \<longleftrightarrow>
            exists corrupt_world (join build_dir ''appicon.svg'')"
    and p2: "exists fresh_world (join build_dir ''appicon.png.backup'') \<longleftrightarrow>
             exists corrupt_world (join build_dir ''appicon.png.backup'')"
    and q1: "exists fresh_world (join build_dir ''appicon.svg'') \<longleftrightarrow>
             exists second_world (join build_dir ''appicon.svg'')"
    and q2: "exists fresh_world (join build_dir ''appicon.png.backup'') \<longleftrightarrow>
             exists second_world (join build_dir ''appicon.png.backup'')"
    by (simp_all add: exists_def fresh_world_def corrupt_world_def second_world_def
        build_dir_def join_def)
  have rf: "script Imported pillow_encoder build_dir fresh_world =
     Returned (after (script Imported pillow_encoder build_dir fresh_world))"
    using fresh_returns [of pillow_encoder] by (simp add: script_main)
  have rs: "script Imported pillow_encoder build_dir second_world =
     Returned (after (script Imported pillow_encoder build_dir second_world))"
    using second_returns [of pillow_encoder] by (simp add: script_main)
  have cf: "events_of corrupt_world (after (script Imported pillow_encoder build_dir corrupt_world)) =
     [Printed MsgStart]"
    by (simp add: script_main corrupt_run events_of_def) (simp add: corrupt_world_def)
  have ff: "events_of fresh_world (after (script Imported pillow_encoder build_dir fresh_world)) =
     main_events build_dir False"
    by (simp add: script_main fresh_events)
  have ne: "\<not> (\<exists>n. main_events build_dir False = take n [Printed MsgStart])"
  proof
    assume "\<exists>n. main_events build_dir False = take n [Printed MsgStart]"
    then obtain n where "main_events build_dir False = take n [Printed MsgStart]" ..
    then have "length (main_events build_dir False) = length (take n [Printed MsgStart])"
      by (rule arg_cong)
    then have "length (main_events build_dir False) \<le> 1"
      by simp
    then show False
      by (simp add: main_events_def produce_events_def)
  qed
  note T1 = steps_determined_up_to_failure [where ?w1.0 = fresh_world and ?w2.0 = corrupt_world
      and d = build_dir and imp = Imported and ?enc1.0 = pillow_encoder
      and ?enc2.0 = pillow_encoder, OF p1 p2]
  have "(\<exists>n. main_events build_dir False = take n [Printed MsgStart]) \<or>
        (\<exists>n. [Printed MsgStart] = take n (main_events build_dir False))"
    using conjunct1 [OF conjunct2 [OF T1]] unfolding cf ff .
  with ne have "\<exists>n. [Printed MsgStart] = take n (main_events build_dir False)"
    by (rule_tac disjE) (assumption, erule notE, assumption+)
  then have 1: "\<exists>n. events_of corrupt_world (after (script Imported pillow_encoder build_dir corrupt_world)) =
          take n (events_of fresh_world (after (script Imported pillow_encoder build_dir fresh_world)))"
    unfolding cf ff .
  note T2 = steps_determined_up_to_failure [where ?w1.0 = fresh_world and ?w2.0 = second_world
      and d = build_dir and imp = Imported and ?enc1.0 = pillow_encoder
      and ?enc2.0 = pillow_encoder
      and ?w1' = "after (script Imported pillow_encoder build_dir fresh_world)"
      and ?w2' = "after (script Imported pillow_encoder build_dir second_world)", OF q1 q2]
  from rf rs have "script Imported pillow_encoder build_dir fresh_world =
       Returned (after (script Imported pillow_encoder build_dir fresh_world)) \<and>
     script Imported pillow_encoder build_dir second_world =
       Returned (after (script Imported pillow_encoder build_dir second_world))"
    by (rule conjI)
  with conjunct2 [OF conjunct2 [OF T2]]
  have "events_of fresh_world (after (script Imported pillow_encoder build_dir fresh_world)) =
        events_of second_world (after (script Imported pillow_encoder build_dir second_world)) \<and>
        events_of fresh_world (after (script Imported pillow_encoder build_dir fresh_world)) =
        script_events Imported build_dir (exists fresh_world (join build_dir ''appicon.svg''))
          (exists fresh_world (join build_dir ''appicon.png.backup''))"
    by (rule mp)
  then have 2: "events_of fresh_world (after (script Imported pillow_encoder build_dir fresh_world)) =
   events_of second_world (after (script Imported pillow_encoder build_dir second_world))"
    by (rule conjunct1)
  have d: "entries fresh_world \<noteq> entries second_world"
  proof
    assume "entries fresh_world = entries second_world"
    then have "entries fresh_world ''/app/build/windows'' = entries second_world ''/app/build/windows''"
      by simp
    then show False
      by (simp add: fresh_world_def second_world_def)
  qed
  show ?thesis
    using p1 p2 1 q1 q2 rf rs 2 d by (intro conjI) assumption+
qed

theorem presence_alone_counterexample:
  "(exists fresh_world (join build_dir ''appicon.svg'') \<longleftrightarrow>
    exists corrupt_world (join build_dir ''appicon.svg'')) \<and>
   (exists fresh_world (join build_dir ''appicon.png.backup'') \<longleftrightarrow>
    exists corrupt_world (join build_dir ''appicon.png.backup'')) \<and>
   events_of corrupt_world (after (script Imported pillow_encoder build_dir corrupt_world)) =
     [Printed MsgStart] \<and>
   events_of fresh_world (after (script Imported pillow_encoder build_dir fresh_world)) =
     main_events build_dir False \<and>
   events_of fresh_world (after (script Imported pillow_encoder build_dir fresh_world)) \<noteq>
   events_of corrupt_world (after (script Imported pillow_encoder build_dir corrupt_world))"
proof -
  have 1: "events_of corrupt_world (after (script Imported pillow_encoder build_dir corrupt_world)) =
     [Printed MsgStart]"
    by (simp add: script_main corrupt_run events_of_def) (simp add: corrupt_world_def)
  have 2: "events_of fresh_world (after (script Imported pillow_encoder build_dir fresh_world)) =
     main_events build_dir False"
    by (simp add: script_main fresh_events)
  have 3: "main_events build_dir False \<noteq> [Printed MsgStart]"
    by (simp add: main_events_def produce_events_def)
  have 4: "(exists fresh_world (join build_dir ''appicon.svg'') \<longleftrightarrow>
    exists corrupt_world (join build_dir ''appicon.svg'')) \<and>
   (exists fresh_world (join build_dir ''appicon.png.backup'') \<longleftrightarrow>
    exists corrupt_world (join build_dir ''appicon.png.backup''))"
    by (simp add: exists_def fresh_world_def corrupt_world_def build_dir_def join_def)
  from 1 2 3 4 show ?thesis by simp
qed

subsection \<open>The icon container\<close>





end
